theory Spec2Isabelle
  imports Complex_Main
begin

section \<open>Data model\<close>

text \<open>
  Modelled from the spec: the class \<^verbatim>\<open>pygraphdb.edge.Edge\<close> is not among the sources.
  The spec gives an edge an id (which may be absent), the two vertex identifiers, a
  weight and an opaque serialised attribute payload. The mapped classes \<^verbatim>\<open>EdgeSQL\<close> and
  \<^verbatim>\<open>EdgeNew\<close> of \<^verbatim>\<open>table_sql.py\<close> declare the same five columns (\<^verbatim>\<open>_id\<close>, \<^verbatim>\<open>v_from\<close>,
  \<^verbatim>\<open>v_to\<close>, \<^verbatim>\<open>weight\<close>, \<^verbatim>\<open>attributes_json\<close>), so one record serves the plain edge, the two
  entities and the rows of both tables. Identifiers are Python integers. The weight
  column is a nullable double: its values are left open as the type \<^verbatim>\<open>'w\<close>, since the
  store only counts and sums them and the sum is the engine's own.
\<close>

record 'w edge =
  edge_id :: "int option"
  v_from :: int
  v_to :: int
  weight :: "'w option"
  attributes_json :: "string option"

text \<open>
  The two mapped classes: \<^verbatim>\<open>EdgeSQL\<close> is stored in \<^verbatim>\<open>table_edges\<close> (indexed, the primary
  table), \<^verbatim>\<open>EdgeNew\<close> in \<^verbatim>\<open>new_edges\<close> (unindexed, the staging table).
\<close>

datatype e_type = EdgeSQL | EdgeNew

text \<open>
  What the insertion functions receive: a plain \<^verbatim>\<open>Edge\<close>, or an instance of a mapped class
  (\<^verbatim>\<open>isinstance(e, BaseEntitySQL)\<close>).
\<close>

datatype 'w obj = Plain "'w edge" | Entity e_type "'w edge"

record 'w tables =
  table_edges :: "'w edge list"
  new_edges :: "'w edge list"

datatype error =
  InvalidRequestError | OperationalError | IntegrityError | NameError | UnmappedInstanceError

text \<open>
  What the store answers to the next \<^verbatim>\<open>session.commit()\<close> whose flush it has no reason
  of its own to refuse. \<^verbatim>\<open>FlushFails\<close>: a statement of the flush is refused. \<^verbatim>\<open>CommitFails\<close>:
  the flush went through and the final COMMIT is refused.
\<close>

datatype outcome = Succeeds | FlushFails | CommitFails

text \<open>
  Where the session stands. \<^verbatim>\<open>Active\<close>: it answers. \<^verbatim>\<open>Holds_new\<close>: it holds a new object
  without primary key that is not flushed yet; both tables declare \<^verbatim>\<open>_id\<close> as a
  \<^verbatim>\<open>BigInteger\<close> primary key, for which the SQLite store that the sources open generates no
  value, so the next flush is refused with IntegrityError. \<^verbatim>\<open>Deactive\<close>: a flush or a
  COMMIT has failed; SQLAlchemy has rolled the transaction back or left it prepared,
  and every query, merge or commit raises until \<^verbatim>\<open>session.rollback()\<close> is called.
\<close>

datatype phase = Active | Holds_new | Deactive

text \<open>
  The SQLAlchemy session of \<^verbatim>\<open>PlainSQL\<close>, \<^verbatim>\<open>self.session\<close>: the committed tables, the
  tables as the open transaction sees them (queries autoflush, so they read this view),
  where the session stands, the answers of the store to the coming commits (none
  listed: they succeed), and the SUM aggregate of the engine behind the session, which
  adds doubles in its own order and with its own rounding.
\<close>

record 'w session =
  durable :: "'w tables"
  view :: "'w tables"
  phase :: phase
  commits :: "outcome list"
  engine_sum :: "'w list \<Rightarrow> 'w"

text \<open>The session does not answer a query until it is rolled back.\<close>

definition inactive :: "'w session \<Rightarrow> bool" where
  "inactive s = (phase s \<noteq> Active)"

section \<open>Session primitives\<close>

text \<open>
  \<^verbatim>\<open>session.query(EdgeSQL)...\<close>: a read of the primary table through the session. The
  query flushes first, which raises when the session holds a new object without key.
\<close>

definition query :: "'w session \<Rightarrow> ('w edge list \<Rightarrow> 'a) \<Rightarrow> error + 'a" where
  "query s f =
     (case phase s of
        Active \<Rightarrow> Inr (f (table_edges (view s)))
      | Holds_new \<Rightarrow> Inl IntegrityError
      | Deactive \<Rightarrow> Inl InvalidRequestError)"

text \<open>
  What \<^verbatim>\<open>session.merge(e)\<close> does to one table for an object with the primary key \<^verbatim>\<open>i\<close>:
  the row with that key is replaced by \<^verbatim>\<open>e\<close>; with no such row \<^verbatim>\<open>e\<close> becomes a new row.
\<close>

definition merge_row :: "'w edge list \<Rightarrow> int \<Rightarrow> 'w edge \<Rightarrow> 'w edge list" where
  "merge_row tbl i e =
     (if Some i \<in> set (map edge_id tbl)
      then map (\<lambda>r. if edge_id r = Some i then e else r) tbl
      else tbl @ [e])"

text \<open>
  \<^verbatim>\<open>session.merge(e)\<close>. The merge flushes what the session holds before it loads, so it
  raises when a new object without key is waiting. An object without key is taken into
  the session and reaches no table before the next flush; an object with a key is merged
  into the table of its class.
\<close>

definition merge :: "'w session \<Rightarrow> 'w obj \<Rightarrow> (error + unit) \<times> 'w session" where
  "merge s e =
     (case phase s of
        Deactive \<Rightarrow> (Inl InvalidRequestError, s)
      | Holds_new \<Rightarrow> (Inl IntegrityError, s\<lparr>view := durable s, phase := Deactive\<rparr>)
      | Active \<Rightarrow>
          (case e of
             Plain f \<Rightarrow> (Inl UnmappedInstanceError, s)
           | Entity t f \<Rightarrow>
               (case edge_id f of
                  None \<Rightarrow> (Inr (), s\<lparr>phase := Holds_new\<rparr>)
                | Some i \<Rightarrow>
                    (case t of
                       EdgeSQL \<Rightarrow>
                         (Inr (), s\<lparr>view := (view s)\<lparr>table_edges :=
                                     merge_row (table_edges (view s)) i f\<rparr>\<rparr>)
                     | EdgeNew \<Rightarrow>
                         (Inr (), s\<lparr>view := (view s)\<lparr>new_edges :=
                                     merge_row (new_edges (view s)) i f\<rparr>\<rparr>)))))"

text \<open>
  \<^verbatim>\<open>session.commit()\<close>: flush, then COMMIT. A failed flush rolls the transaction back; a
  refused COMMIT leaves it prepared. Either way the session raises from then on until
  it is rolled back.
\<close>

definition commit :: "'w session \<Rightarrow> (error + unit) \<times> 'w session" where
  "commit s =
     (case phase s of
        Deactive \<Rightarrow> (Inl InvalidRequestError, s)
      | Holds_new \<Rightarrow> (Inl IntegrityError, s\<lparr>view := durable s, phase := Deactive\<rparr>)
      | Active \<Rightarrow>
          (case commits s of
             [] \<Rightarrow> (Inr (), s\<lparr>durable := view s\<rparr>)
           | Succeeds # os \<Rightarrow> (Inr (), s\<lparr>durable := view s, commits := os\<rparr>)
           | FlushFails # os \<Rightarrow>
               (Inl OperationalError, s\<lparr>view := durable s, phase := Deactive, commits := os\<rparr>)
           | CommitFails # os \<Rightarrow>
               (Inl OperationalError, s\<lparr>phase := Deactive, commits := os\<rparr>)))"

definition rollback :: "'w session \<Rightarrow> 'w session" where
  "rollback s = s\<lparr>view := durable s, phase := Active\<rparr>"

section \<open>Queries of PlainSQL\<close>

definition find_edge :: "'w session \<Rightarrow> int \<Rightarrow> int \<Rightarrow> error + 'w edge option" where
  "find_edge s a b =
     query s (\<lambda>rows. case filter (\<lambda>e. v_from e = a \<and> v_to e = b) rows of
                        [] \<Rightarrow> None
                      | e # _ \<Rightarrow> Some e)"

definition find_edge_or_inv :: "'w session \<Rightarrow> int \<Rightarrow> int \<Rightarrow> error + 'w edge list" where
  "find_edge_or_inv s v1 v2 =
     query s (filter (\<lambda>e. (v_from e = v1 \<and> v_to e = v2) \<or> (v_from e = v2 \<and> v_to e = v1)))"

definition edges_from :: "'w session \<Rightarrow> int \<Rightarrow> error + 'w edge list" where
  "edges_from s v = query s (filter (\<lambda>e. v_from e = v))"

definition edges_to :: "'w session \<Rightarrow> int \<Rightarrow> error + 'w edge list" where
  "edges_to s v = query s (filter (\<lambda>e. v_to e = v))"

definition edges_related :: "'w session \<Rightarrow> int \<Rightarrow> error + 'w edge list" where
  "edges_related s v = query s (filter (\<lambda>e. v_from e = v \<or> v_to e = v))"

text \<open>
  A query on one column, \<^verbatim>\<open>session.query(EdgeSQL.v_from).distinct().all()\<close>, returns
  result rows: each is a one-element tuple \<^verbatim>\<open>(v,)\<close>, not the bare value.
\<close>

datatype row = Row int

definition all_vertexes :: "'w session \<Rightarrow> error + row set" where
  "all_vertexes s =
     (case query s (\<lambda>rows. remdups (map (\<lambda>e. Row (v_from e)) rows)) of
        Inl err \<Rightarrow> Inl err
      | Inr all_froms \<Rightarrow>
          (case query s (\<lambda>rows. remdups (map (\<lambda>e. Row (v_to e)) rows)) of
             Inl err \<Rightarrow> Inl err
           | Inr all_tos \<Rightarrow> Inr (set all_froms \<union> set all_tos)))"

text \<open>The loop of \<^verbatim>\<open>nodes_related_to_group\<close> over the edges the query returned.\<close>

fun related_loop :: "int list \<Rightarrow> 'w edge list \<Rightarrow> int set \<Rightarrow> int set" where
  "related_loop vs [] result = result"
| "related_loop vs (e # edges) result =
     (if v_from e \<notin> set vs then related_loop vs edges (insert (v_from e) result)
      else if v_to e \<notin> set vs then related_loop vs edges (insert (v_to e) result)
      else related_loop vs edges result)"

definition nodes_related_to_group :: "'w session \<Rightarrow> int list \<Rightarrow> error + int set" where
  "nodes_related_to_group s vs =
     (case query s (filter (\<lambda>e. v_from e \<in> set vs \<or> v_to e \<in> set vs)) of
        Inl err \<Rightarrow> Inl err
      | Inr edges \<Rightarrow> Inr (related_loop vs edges {}))"

definition count_nodes :: "'w session \<Rightarrow> error + nat" where
  "count_nodes s = (case all_vertexes s of Inl err \<Rightarrow> Inl err | Inr vs \<Rightarrow> Inr (card vs))"

definition count_edges :: "'w session \<Rightarrow> error + nat" where
  "count_edges s = query s length"

text \<open>
  The aggregate pair \<^verbatim>\<open>(count(weight), sum(weight))\<close> of SQL over the selected rows. Both
  aggregates skip the rows whose weight is NULL: \<^verbatim>\<open>count\<close> is the number of the weights
  that are left, and \<^verbatim>\<open>sum\<close> is what the engine makes of them, NULL (Python's \<^verbatim>\<open>None\<close>) when
  none is left.
\<close>

definition count_sum :: "('w list \<Rightarrow> 'w) \<Rightarrow> 'w edge list \<Rightarrow> nat \<times> 'w option" where
  "count_sum adder ms =
     (case List.map_filter weight ms of
        [] \<Rightarrow> (0, None)
      | w # ws \<Rightarrow> (length (w # ws), Some (adder (w # ws))))"

definition count_related :: "'w session \<Rightarrow> int \<Rightarrow> error + nat \<times> 'w option" where
  "count_related s v =
     query s (\<lambda>rows. count_sum (engine_sum s) (filter (\<lambda>e. v_from e = v \<or> v_to e = v) rows))"

definition count_followers :: "'w session \<Rightarrow> int \<Rightarrow> error + nat \<times> 'w option" where
  "count_followers s v = query s (\<lambda>rows. count_sum (engine_sum s) (filter (\<lambda>e. v_to e = v) rows))"

definition count_following :: "'w session \<Rightarrow> int \<Rightarrow> error + nat \<times> 'w option" where
  "count_following s v = query s (\<lambda>rows. count_sum (engine_sum s) (filter (\<lambda>e. v_from e = v) rows))"

section \<open>Modifications of PlainSQL\<close>

text \<open>
  Modelled from the spec: the constructor call \<^verbatim>\<open>e_type(e['v_from'], e['v_to'], e['weight'])\<close>
  runs \<^verbatim>\<open>Edge.__init__\<close>, which is not among the sources. It receives the two vertices and
  the weight and nothing else, so the id and the attribute payload of the new object are
  absent, whatever the plain edge carried.
\<close>

definition rebuilt :: "'w edge \<Rightarrow> 'w edge" where
  "rebuilt f =
     \<lparr>edge_id = None, v_from = v_from f, v_to = v_to f, weight = weight f, attributes_json = None\<rparr>"

text \<open>
  \<^verbatim>\<open>_to_sql(e, e_type)\<close>: an instance of a mapped class is returned as it is; anything
  else is rebuilt as an instance of \<^verbatim>\<open>e_type\<close>.
\<close>

definition to_sql :: "'w obj \<Rightarrow> e_type \<Rightarrow> 'w obj" where
  "to_sql e t = (case e of Entity _ _ \<Rightarrow> e | Plain f \<Rightarrow> Entity t (rebuilt f))"

text \<open>\<^verbatim>\<open>insert_edge\<close>: convert, merge, commit; an exception of either leaves the function.\<close>

definition insert_edge :: "'w session \<Rightarrow> 'w obj \<Rightarrow> (error + unit) \<times> 'w session" where
  "insert_edge s e =
     (case merge s (to_sql e EdgeSQL) of
        (Inl err, s1) \<Rightarrow> (Inl err, s1)
      | (Inr _, s1) \<Rightarrow> commit s1)"

text \<open>The loop of \<^verbatim>\<open>insert_edges\<close>, which stands before the \<^verbatim>\<open>try\<close>.\<close>

fun merge_all :: "'w session \<Rightarrow> 'w obj list \<Rightarrow> (error + unit) \<times> 'w session" where
  "merge_all s [] = (Inr (), s)"
| "merge_all s (e # es) =
     (case merge s (to_sql e EdgeSQL) of
        (Inl err, s1) \<Rightarrow> (Inl err, s1)
      | (Inr _, s1) \<Rightarrow> merge_all s1 es)"

text \<open>
  \<^verbatim>\<open>insert_edges\<close>: only the commit is guarded; when it raises, the function returns 0
  and does not call \<^verbatim>\<open>session.rollback()\<close>.
\<close>

definition insert_edges :: "'w session \<Rightarrow> 'w obj list \<Rightarrow> (error + nat) \<times> 'w session" where
  "insert_edges s es =
     (case merge_all s es of
        (Inl err, s1) \<Rightarrow> (Inl err, s1)
      | (Inr _, s1) \<Rightarrow>
          (case commit s1 of
             (Inr _, s2) \<Rightarrow> (Inr (length es), s2)
           | (Inl _, s2) \<Rightarrow> (Inr 0, s2)))"

definition max_batch_size :: nat where
  "max_batch_size = 5000"

text \<open>
  Modelled from the spec: \<^verbatim>\<open>pygraphdb.helpers.chunks\<close> is not among the sources. The
  spec has it partition the input sequence into consecutive chunks of the given size,
  the last one possibly shorter.
\<close>

fun chunks :: "'a list \<Rightarrow> nat \<Rightarrow> 'a list list" where
  "chunks xs n = (if n = 0 \<or> xs = [] then [] else take n xs # chunks (drop n xs) n)"

text \<open>
  \<^verbatim>\<open>insert_table\<close>: the statement is built under the name \<^verbatim>\<open>migration\<close>, and the call
  \<^verbatim>\<open>self.session.execute(step)\<close> names \<^verbatim>\<open>step\<close>, which is bound nowhere: evaluating the
  argument raises NameError before the session is reached. The method is marked
  \<^verbatim>\<open>@abstractmethod\<close>, but neither \<^verbatim>\<open>SQLite\<close> nor \<^verbatim>\<open>SQLiteMem\<close> of \<^verbatim>\<open>table_sqlite.py\<close>
  overrides it, so this body is the one \<^verbatim>\<open>insert_dump\<close> calls.
\<close>

definition insert_table :: "'w session \<Rightarrow> string \<Rightarrow> (error + unit) \<times> 'w session" where
  "insert_table s source_name = (Inl NameError, s)"

text \<open>\<^verbatim>\<open>flush_temporary_table\<close>: the DELETE is executed without a flush, then committed.\<close>

definition flush_temporary_table :: "'w session \<Rightarrow> (error + unit) \<times> 'w session" where
  "flush_temporary_table s =
     (case phase s of
        Deactive \<Rightarrow> (Inl InvalidRequestError, s)
      | _ \<Rightarrow> commit (s\<lparr>view := (view s)\<lparr>new_edges := []\<rparr>\<rparr>))"

text \<open>
  The loop of \<^verbatim>\<open>insert_dump\<close> over the chunks: each record goes through \<^verbatim>\<open>_to_sql(e)\<close>,
  whose \<^verbatim>\<open>e_type\<close> is left at its default \<^verbatim>\<open>EdgeSQL\<close>, and the chunk through
  \<^verbatim>\<open>insert_edges\<close>, whose result is dropped.
\<close>

fun load_chunks :: "'w session \<Rightarrow> 'w edge list list \<Rightarrow> (error + unit) \<times> 'w session" where
  "load_chunks s [] = (Inr (), s)"
| "load_chunks s (es # rest) =
     (case insert_edges s (map (\<lambda>e. to_sql (Plain e) EdgeSQL) es) of
        (Inl err, s1) \<Rightarrow> (Inl err, s1)
      | (Inr _, s1) \<Rightarrow> load_chunks s1 rest)"

text \<open>
  The \<^verbatim>\<open>try\<close> block of \<^verbatim>\<open>insert_dump\<close>. The reader \<^verbatim>\<open>yield_edges_from(path)\<close> is not
  among the sources; the sequence of plain edges it yields is the argument \<^verbatim>\<open>dump\<close>.
\<close>

definition insert_dump_try :: "'w session \<Rightarrow> 'w edge list \<Rightarrow> (error + int) \<times> 'w session" where
  "insert_dump_try s dump =
     (case count_edges s of
        Inl err \<Rightarrow> (Inl err, s)
      | Inr cnt \<Rightarrow>
     (case load_chunks s (chunks dump max_batch_size) of
        (Inl err, s1) \<Rightarrow> (Inl err, s1)
      | (Inr _, s1) \<Rightarrow>
     (case commit s1 of
        (Inl err, s2) \<Rightarrow> (Inl err, s2)
      | (Inr _, s2) \<Rightarrow>
     (case insert_table s2 ''new_edges'' of
        (Inl err, s3) \<Rightarrow> (Inl err, s3)
      | (Inr _, s3) \<Rightarrow>
     (case flush_temporary_table s3 of
        (Inl err, s4) \<Rightarrow> (Inl err, s4)
      | (Inr _, s4) \<Rightarrow>
     (case count_edges s4 of
        Inl err \<Rightarrow> (Inl err, s4)
      | Inr cnt' \<Rightarrow> (Inr (int cnt' - int cnt), s4)))))))"

text \<open>\<^verbatim>\<open>insert_dump\<close>: any exception of the block is answered by a rollback and 0.\<close>

definition insert_dump :: "'w session \<Rightarrow> 'w edge list \<Rightarrow> int \<times> 'w session" where
  "insert_dump s dump =
     (case insert_dump_try s dump of
        (Inr n, s1) \<Rightarrow> (n, s1)
      | (Inl _, s1) \<Rightarrow> (0, rollback s1))"

section \<open>Example stores\<close>

text \<open>
  A session on a store whose primary table holds the given rows, with nothing pending.
  The examples take real numbers for the weights and the exact sum for the engine's.
\<close>

definition open_store :: "real edge list \<Rightarrow> real session" where
  "open_store rows =
     \<lparr>durable = \<lparr>table_edges = rows, new_edges = []\<rparr>,
      view = \<lparr>table_edges = rows, new_edges = []\<rparr>,
      phase = Active, commits = [], engine_sum = sum_list\<rparr>"

definition empty_store :: "real session" where
  "empty_store = open_store []"

definition edge_row :: "int \<Rightarrow> int \<Rightarrow> int \<Rightarrow> real \<Rightarrow> real edge" where
  "edge_row i a b w =
     \<lparr>edge_id = Some i, v_from = a, v_to = b, weight = Some w, attributes_json = None\<rparr>"

text \<open>The edges (1,2), (2,3), (3,4).\<close>

definition chain_store :: "real session" where
  "chain_store = open_store [edge_row 1 1 2 1, edge_row 2 2 3 1, edge_row 3 3 4 1]"

text \<open>Vertex 1 with outgoing edges of weights 1.0, 2.5 and 0.5, and one incoming edge.\<close>

definition fan_store :: "real session" where
  "fan_store =
     open_store [edge_row 1 1 2 1, edge_row 2 1 3 (5 / 2), edge_row 3 1 4 (1 / 2), edge_row 4 5 1 3]"

text \<open>An edge that carries an attribute payload.\<close>

definition tagged_edge :: "real edge" where
  "tagged_edge = (edge_row 7 1 2 1)\<lparr>attributes_json := Some ''{since: 2019}''\<rparr>"


declare chunks.simps [simp del]

section \<open>Facts about the queries\<close>

lemma query_active: "\<not> inactive s \<Longrightarrow> query s f = Inr (f (table_edges (view s)))"
  by (simp add: query_def inactive_def split: phase.splits)

lemma open_store_active: "\<not> inactive (open_store rows)"
  by (simp add: open_store_def inactive_def)

lemma open_store_rows: "table_edges (view (open_store rows)) = rows"
  by (simp add: open_store_def)

lemma related_loop_set:
  "related_loop vs edges result =
     result \<union> {v_from e | e. e \<in> set edges \<and> v_from e \<notin> set vs}
            \<union> {v_to e | e. e \<in> set edges \<and> v_from e \<in> set vs \<and> v_to e \<notin> set vs}"
  by (induction edges arbitrary: result) auto

lemma count_sum_Nil: "count_sum adder [] = (0, None)"
  by (simp add: count_sum_def List.map_filter_simps)


subsection \<open>Frontier of a vertex group\<close>

text \<open>
  C4. While the session is usable, \<^verbatim>\<open>nodes_related_to_group(vs)\<close> returns exactly the
  vertices outside \<^verbatim>\<open>vs\<close> that are an endpoint of a stored edge whose other endpoint is in
  \<^verbatim>\<open>vs\<close>. With the stored edges (1,2), (2,3), (3,4) and the group 2, 3 the result is the
  set of 1 and 4.
\<close>

theorem nodes_related_to_group_frontier:
  assumes "\<not> inactive s"
  shows "nodes_related_to_group s vs =
           Inr {u. u \<notin> set vs \<and>
                   (\<exists>e \<in> set (table_edges (view s)).
                      (v_from e = u \<and> v_to e \<in> set vs) \<or> (v_to e = u \<and> v_from e \<in> set vs))}
         \<and> ((\<lambda>e. (v_from e, v_to e)) ` set (table_edges (view s)) = {(1, 2), (2, 3), (3, 4)}
              \<longrightarrow> nodes_related_to_group s [2, 3] = Inr {1, 4})"
proof -
  have general: "nodes_related_to_group s ws =
           Inr {u. u \<notin> set ws \<and>
                   (\<exists>e \<in> set (table_edges (view s)).
                      (v_from e = u \<and> v_to e \<in> set ws) \<or> (v_to e = u \<and> v_from e \<in> set ws))}" for ws
    using assms by (auto simp: nodes_related_to_group_def query_active related_loop_set)
  have "{u. u \<notin> set [2, 3] \<and>
            (\<exists>e \<in> set (table_edges (view s)).
               (v_from e = u \<and> v_to e \<in> set [2, 3]) \<or> (v_to e = u \<and> v_from e \<in> set [2, 3]))} = {1, 4}"
    if ends: "(\<lambda>e. (v_from e, v_to e)) ` set (table_edges (view s)) = {(1, 2), (2, 3), (3, 4)}"
  proof -
    have bex: "(\<exists>e \<in> set (table_edges (view s)). Q (v_from e) (v_to e))
                 \<longleftrightarrow> (\<exists>p \<in> {(1, 2), (2, 3), (3, 4)}. Q (fst p) (snd p))" for Q
      unfolding ends [symmetric] by simp
    show ?thesis
      unfolding bex [of "\<lambda>a b. (a = u \<and> b \<in> set [2, 3]) \<or> (b = u \<and> a \<in> set [2, 3])" for u]
      by auto
  qed
  with general show ?thesis by simp
qed

text \<open>The frontier theorem at the chain 1, 2, 3, 4.\<close>

theorem nodes_related_to_group_frontier_witness:
  "\<not> inactive chain_store \<and> nodes_related_to_group chain_store [2, 3] = Inr {1, 4}"
proof -
  have active: "\<not> inactive chain_store"
    by (simp add: chain_store_def open_store_active)
  have ends: "(\<lambda>e. (v_from e, v_to e)) ` set (table_edges (view chain_store))
                = {(1, 2), (2, 3), (3, 4)}"
    by (simp add: chain_store_def open_store_rows edge_row_def)
  from nodes_related_to_group_frontier [OF active, of "[2, 3]"] ends active
  show ?thesis by blast
qed

subsection \<open>Directed lookups\<close>

text \<open>
  C8. While the session is usable, \<^verbatim>\<open>find_edge(a, b)\<close> returns a stored edge with
  \<^verbatim>\<open>v_from = a\<close> and \<^verbatim>\<open>v_to = b\<close>, or none when there is no such edge, and
  \<^verbatim>\<open>find_edge_or_inv(a, b)\<close> returns the stored edges that run from \<^verbatim>\<open>a\<close> to \<^verbatim>\<open>b\<close> or from
  \<^verbatim>\<open>b\<close> to \<^verbatim>\<open>a\<close>. In a store that holds only an edge from 1 to 2, \<^verbatim>\<open>find_edge(2, 1)\<close> is
  none and \<^verbatim>\<open>find_edge_or_inv(1, 2)\<close> is that edge.
\<close>

theorem find_edge_directed:
  assumes "\<not> inactive s"
  shows "(\<exists>r. find_edge s a b = Inr r \<and>
            (case r of
               None \<Rightarrow> \<not> (\<exists>e \<in> set (table_edges (view s)). v_from e = a \<and> v_to e = b)
             | Some e \<Rightarrow> e \<in> set (table_edges (view s)) \<and> v_from e = a \<and> v_to e = b))
       \<and> (\<exists>rs. find_edge_or_inv s a b = Inr rs \<and>
            set rs = {e \<in> set (table_edges (view s)).
                        (v_from e = a \<and> v_to e = b) \<or> (v_from e = b \<and> v_to e = a)})
       \<and> (table_edges (view s) = [e] \<and> v_from e = 1 \<and> v_to e = 2
            \<longrightarrow> find_edge s 2 1 = Inr None \<and> find_edge_or_inv s 1 2 = Inr [e])"
proof -
  let ?rows = "table_edges (view s)"
  let ?ms = "filter (\<lambda>e. v_from e = a \<and> v_to e = b) ?rows"
  have first: "case (case ?ms of [] \<Rightarrow> None | e # _ \<Rightarrow> Some e) of
                 None \<Rightarrow> \<not> (\<exists>e \<in> set ?rows. v_from e = a \<and> v_to e = b)
               | Some e \<Rightarrow> e \<in> set ?rows \<and> v_from e = a \<and> v_to e = b"
  proof (cases ?ms)
    case Nil
    then show ?thesis by (simp add: filter_empty_conv)
  next
    case (Cons m ms)
    have "m \<in> set ?ms" unfolding Cons by simp
    then have "m \<in> set ?rows \<and> v_from m = a \<and> v_to m = b" by simp
    then show ?thesis unfolding Cons by simp
  qed
  from assms first have one: "\<exists>r. find_edge s a b = Inr r \<and>
            (case r of
               None \<Rightarrow> \<not> (\<exists>e \<in> set ?rows. v_from e = a \<and> v_to e = b)
             | Some e \<Rightarrow> e \<in> set ?rows \<and> v_from e = a \<and> v_to e = b)"
    by (simp add: find_edge_def query_active)
  from assms have two: "\<exists>rs. find_edge_or_inv s a b = Inr rs \<and>
            set rs = {e \<in> set ?rows. (v_from e = a \<and> v_to e = b) \<or> (v_from e = b \<and> v_to e = a)}"
    by (simp add: find_edge_or_inv_def query_active)
  from assms have three: "?rows = [e] \<and> v_from e = 1 \<and> v_to e = 2
            \<longrightarrow> find_edge s 2 1 = Inr None \<and> find_edge_or_inv s 1 2 = Inr [e]"
    by (simp add: find_edge_def find_edge_or_inv_def query_active)
  from one two three show ?thesis by blast
qed

text \<open>The lookup theorem at a store that holds the one edge from 1 to 2.\<close>

theorem find_edge_directed_witness:
  "\<not> inactive (open_store [edge_row 1 1 2 3])
   \<and> find_edge (open_store [edge_row 1 1 2 3]) 2 1 = Inr None
   \<and> find_edge_or_inv (open_store [edge_row 1 1 2 3]) 1 2 = Inr [edge_row 1 1 2 3]"
proof -
  have active: "\<not> inactive (open_store [edge_row 1 1 2 3])"
    by (rule open_store_active)
  have only: "table_edges (view (open_store [edge_row 1 1 2 3])) = [edge_row 1 1 2 3]
              \<and> v_from (edge_row 1 1 2 3) = 1 \<and> v_to (edge_row 1 1 2 3) = 2"
    by (simp add: open_store_rows edge_row_def)
  from find_edge_directed [OF active, of 2 1 "edge_row 1 1 2 3"] only active
  show ?thesis by blast
qed

subsection \<open>Weighted degree\<close>




text \<open>
  C10. While the session is usable, a vertex that no stored edge matches gets the count 0
  and no sum (SQL NULL, Python \<^verbatim>\<open>None\<close>) from \<^verbatim>\<open>count_followers\<close>, \<^verbatim>\<open>count_following\<close>
  and \<^verbatim>\<open>count_related\<close>, not the number 0.0.
\<close>

theorem count_no_match:
  assumes "\<not> inactive s"
  shows "((\<forall>e \<in> set (table_edges (view s)). v_to e \<noteq> v) \<longrightarrow> count_followers s v = Inr (0, None))
       \<and> ((\<forall>e \<in> set (table_edges (view s)). v_from e \<noteq> v) \<longrightarrow> count_following s v = Inr (0, None))
       \<and> ((\<forall>e \<in> set (table_edges (view s)). v_from e \<noteq> v \<and> v_to e \<noteq> v)
             \<longrightarrow> count_related s v = Inr (0, None))"
proof -
  have none: "count_sum adder (filter P rows) = (0, None)" if "\<forall>e \<in> set rows. \<not> P e"
    for adder :: "'a list \<Rightarrow> 'a" and P and rows :: "'a edge list"
  proof -
    from that have "filter P rows = []" by (simp add: filter_empty_conv)
    then show ?thesis by (simp add: count_sum_Nil)
  qed
  show ?thesis
    using assms
    by (simp add: count_followers_def count_following_def count_related_def query_active none
          del: filter_False)
qed

text \<open>The no-match theorem at vertex 9, which the fan does not touch.\<close>

theorem count_no_match_witness:
  "\<not> inactive fan_store \<and> count_followers fan_store 9 = Inr (0, None)
   \<and> count_following fan_store 9 = Inr (0, None) \<and> count_related fan_store 9 = Inr (0, None)"
proof -
  have active: "\<not> inactive fan_store"
    by (simp add: fan_store_def open_store_active)
  have none: "\<forall>e \<in> set (table_edges (view fan_store)). v_from e \<noteq> 9 \<and> v_to e \<noteq> 9"
    by (simp add: fan_store_def open_store_rows edge_row_def)
  from count_no_match [OF active, of 9] none active show ?thesis by blast
qed

subsection \<open>Vertices\<close>

text \<open>
  C6. While the session is usable, \<^verbatim>\<open>all_vertexes()\<close> returns one result row \<^verbatim>\<open>(v,)\<close> for
  each vertex identifier \<^verbatim>\<open>v\<close> that is the \<^verbatim>\<open>v_from\<close> or the \<^verbatim>\<open>v_to\<close> of a stored edge, each
  once, and \<^verbatim>\<open>count_nodes()\<close> is the number of these identifiers. The elements of the
  returned set are the rows, not the identifiers.
\<close>

theorem all_vertexes_rows:
  assumes "\<not> inactive s"
  shows "all_vertexes s =
           Inr (Row ` (v_from ` set (table_edges (view s)) \<union> v_to ` set (table_edges (view s))))
       \<and> count_nodes s =
           Inr (card (v_from ` set (table_edges (view s)) \<union> v_to ` set (table_edges (view s))))"
proof -
  have vs: "all_vertexes s =
           Inr (Row ` (v_from ` set (table_edges (view s)) \<union> v_to ` set (table_edges (view s))))"
    using assms by (auto simp: all_vertexes_def query_active image_Un image_image)
  have "inj Row" by (simp add: inj_def)
  then have "card (Row ` A) = card A" for A
    by (simp add: card_image inj_on_def)
  with vs show ?thesis by (simp add: count_nodes_def)
qed

text \<open>The vertex theorem at the chain 1, 2, 3, 4.\<close>

theorem all_vertexes_rows_witness:
  "\<not> inactive chain_store \<and> all_vertexes chain_store = Inr {Row 1, Row 2, Row 3, Row 4}
   \<and> count_nodes chain_store = Inr 4"
proof -
  have active: "\<not> inactive chain_store"
    by (simp add: chain_store_def open_store_active)
  have rows: "table_edges (view chain_store) = [edge_row 1 1 2 1, edge_row 2 2 3 1, edge_row 3 3 4 1]"
    by (simp add: chain_store_def open_store_rows)
  have ids: "v_from ` set (table_edges (view chain_store)) \<union> v_to ` set (table_edges (view chain_store))
               = {1, 2, 3, 4}"
    unfolding rows by (auto simp: edge_row_def)
  have "card {1, 2, 3, 4 :: int} = 4" by simp
  with all_vertexes_rows [OF active] active show ?thesis
    unfolding ids by simp
qed

section \<open>Facts about the session\<close>

lemma to_sql_Plain: "to_sql (Plain f) t = Entity t (rebuilt f)"
  by (simp add: to_sql_def)

lemma to_sql_Entity: "to_sql (Entity t f) t' = Entity t f"
  by (simp add: to_sql_def)

lemma rebuilt_keyless: "edge_id (rebuilt f) = None"
  by (simp add: rebuilt_def)

lemma merge_keyless_fixed:
  assumes "edge_id f = None" and "durable s = D" and "view s = D"
  shows "durable (snd (merge s (Entity t f))) = D \<and> view (snd (merge s (Entity t f))) = D"
  using assms by (simp add: merge_def split: phase.splits)

lemma commit_fixed:
  assumes "durable s = D" and "view s = D"
  shows "durable (snd (commit s)) = D \<and> view (snd (commit s)) = D"
  using assms by (simp add: commit_def split: phase.splits list.splits outcome.splits)

lemma merge_all_fixed:
  "durable s = D \<Longrightarrow> view s = D \<Longrightarrow>
     durable (snd (merge_all s (map (\<lambda>e. Entity EdgeSQL (rebuilt e)) es))) = D
     \<and> view (snd (merge_all s (map (\<lambda>e. Entity EdgeSQL (rebuilt e)) es))) = D"
proof (induction es arbitrary: s)
  case Nil
  then show ?case by simp
next
  case (Cons e es)
  obtain r s1 where m: "merge s (Entity EdgeSQL (rebuilt e)) = (r, s1)"
    by (cases "merge s (Entity EdgeSQL (rebuilt e))")
  from merge_keyless_fixed [where f = "rebuilt e" and t = EdgeSQL, OF rebuilt_keyless Cons.prems] m
  have s1: "durable s1 = D" "view s1 = D" by simp_all
  show ?case
  proof (cases r)
    case (Inl err)
    with m s1 show ?thesis by (simp add: to_sql_Entity)
  next
    case (Inr u)
    with m Cons.IH [OF s1] show ?thesis by (simp add: to_sql_Entity)
  qed
qed

lemma insert_edges_fixed:
  assumes "durable s = D" and "view s = D"
  shows "durable (snd (insert_edges s (map (\<lambda>e. Entity EdgeSQL (rebuilt e)) es))) = D
       \<and> view (snd (insert_edges s (map (\<lambda>e. Entity EdgeSQL (rebuilt e)) es))) = D"
proof -
  obtain r s1 where m: "merge_all s (map (\<lambda>e. Entity EdgeSQL (rebuilt e)) es) = (r, s1)"
    by (cases "merge_all s (map (\<lambda>e. Entity EdgeSQL (rebuilt e)) es)")
  from merge_all_fixed [OF assms, of es] m have s1: "durable s1 = D" "view s1 = D" by simp_all
  obtain r2 s2 where c: "commit s1 = (r2, s2)" by (cases "commit s1")
  from commit_fixed [OF s1] c have s2: "durable s2 = D" "view s2 = D" by simp_all
  show ?thesis
    using m c s1 s2 by (cases r; cases r2) (simp_all add: insert_edges_def)
qed

lemma load_chunks_fixed:
  "durable s = D \<Longrightarrow> view s = D \<Longrightarrow>
     durable (snd (load_chunks s css)) = D \<and> view (snd (load_chunks s css)) = D"
proof (induction css arbitrary: s)
  case Nil
  then show ?case by simp
next
  case (Cons es css)
  have conv: "map (\<lambda>e. to_sql (Plain e) EdgeSQL) es = map (\<lambda>e. Entity EdgeSQL (rebuilt e)) es"
    by (simp add: to_sql_Plain)
  obtain r s1 where i: "insert_edges s (map (\<lambda>e. Entity EdgeSQL (rebuilt e)) es) = (r, s1)"
    by (cases "insert_edges s (map (\<lambda>e. Entity EdgeSQL (rebuilt e)) es)")
  from insert_edges_fixed [OF Cons.prems, of es] i have s1: "durable s1 = D" "view s1 = D"
    by simp_all
  show ?case
  proof (cases r)
    case (Inl err)
    with i s1 show ?thesis by (simp add: conv)
  next
    case (Inr n)
    with i Cons.IH [OF s1] show ?thesis by (simp add: conv)
  qed
qed

lemma insert_dump_try_raises: "\<exists>err s'. insert_dump_try s dump = (Inl err, s')"
proof (cases "count_edges s")
  case (Inl err)
  then show ?thesis by (simp add: insert_dump_try_def)
next
  case cnt: (Inr cnt)
  obtain r1 s1 where l: "load_chunks s (chunks dump max_batch_size) = (r1, s1)"
    by (cases "load_chunks s (chunks dump max_batch_size)")
  show ?thesis
  proof (cases r1)
    case (Inl err)
    with cnt l show ?thesis by (simp add: insert_dump_try_def)
  next
    case r1: (Inr u)
    obtain r2 s2 where c: "commit s1 = (r2, s2)" by (cases "commit s1")
    show ?thesis
    proof (cases r2)
      case (Inl err)
      with cnt l r1 c show ?thesis by (simp add: insert_dump_try_def)
    next
      case (Inr u')
      with cnt l r1 c show ?thesis by (simp add: insert_dump_try_def insert_table_def)
    qed
  qed
qed

lemma insert_dump_try_fixed:
  assumes "durable s = D" and "view s = D"
  shows "durable (snd (insert_dump_try s dump)) = D"
proof (cases "count_edges s")
  case (Inl err)
  with assms show ?thesis by (simp add: insert_dump_try_def)
next
  case cnt: (Inr cnt)
  obtain r1 s1 where l: "load_chunks s (chunks dump max_batch_size) = (r1, s1)"
    by (cases "load_chunks s (chunks dump max_batch_size)")
  from load_chunks_fixed [OF assms, of "chunks dump max_batch_size"] l
  have s1: "durable s1 = D" "view s1 = D" by simp_all
  show ?thesis
  proof (cases r1)
    case (Inl err)
    with cnt l s1 show ?thesis by (simp add: insert_dump_try_def)
  next
    case r1: (Inr u)
    obtain r2 s2 where c: "commit s1 = (r2, s2)" by (cases "commit s1")
    from commit_fixed [OF s1] c have s2: "durable s2 = D" by simp
    show ?thesis
      using cnt l r1 c s2 by (cases r2) (simp_all add: insert_dump_try_def insert_table_def)
  qed
qed

section \<open>Single insertion\<close>

text \<open>
  C5, at a plain edge that carries an id. The store holds an edge with id 7 and weight 1;
  \<^verbatim>\<open>insert_edge\<close> is given a plain edge with id 7 and weight 2. \<^verbatim>\<open>_to_sql\<close> rebuilds it
  without the id, the store refuses the row without key, and \<^verbatim>\<open>insert_edge\<close> raises
  IntegrityError: the stored edge is not replaced, as a rollback shows, and until that
  rollback \<^verbatim>\<open>find_edge\<close> raises. Given the same edge as an \<^verbatim>\<open>EdgeSQL\<close> entity, which
  \<^verbatim>\<open>_to_sql\<close> passes on as it is, \<^verbatim>\<open>insert_edge\<close> replaces the stored edge.
\<close>

theorem insert_edge_plain_id_refused:
  "to_sql (Plain (edge_row 7 1 2 2)) EdgeSQL = Entity EdgeSQL (rebuilt (edge_row 7 1 2 2))
   \<and> edge_id (rebuilt (edge_row 7 1 2 2)) = None
   \<and> fst (insert_edge (open_store [edge_row 7 1 2 1]) (Plain (edge_row 7 1 2 2)))
       = Inl IntegrityError
   \<and> table_edges (durable (snd (insert_edge (open_store [edge_row 7 1 2 1])
        (Plain (edge_row 7 1 2 2))))) = [edge_row 7 1 2 1]
   \<and> find_edge (snd (insert_edge (open_store [edge_row 7 1 2 1]) (Plain (edge_row 7 1 2 2)))) 1 2
       = Inl InvalidRequestError
   \<and> find_edge (rollback (snd (insert_edge (open_store [edge_row 7 1 2 1])
        (Plain (edge_row 7 1 2 2))))) 1 2 = Inr (Some (edge_row 7 1 2 1))
   \<and> insert_edge (open_store [edge_row 7 1 2 1]) (Entity EdgeSQL (edge_row 7 1 2 2))
       = (Inr (), open_store [edge_row 7 1 2 2])"
  by (simp add: open_store_def edge_row_def insert_edge_def to_sql_def rebuilt_def merge_def
        commit_def merge_row_def rollback_def find_edge_def query_def)

text \<open>
  C7, at a plain edge that carries an attribute payload. \<^verbatim>\<open>_to_sql\<close> rebuilds the edge
  without the payload (and without the id), the store refuses the row without key, and
  \<^verbatim>\<open>insert_edge\<close> raises IntegrityError: nothing is stored, \<^verbatim>\<open>find_edge\<close> raises until
  the session is rolled back and finds nothing afterwards. Given the same edge as an
  \<^verbatim>\<open>EdgeSQL\<close> entity, \<^verbatim>\<open>insert_edge\<close> stores it and \<^verbatim>\<open>find_edge\<close> returns it with the
  payload.
\<close>

theorem plain_attributes_dropped:
  "attributes_json tagged_edge = Some ''{since: 2019}''
   \<and> to_sql (Plain tagged_edge) EdgeSQL = Entity EdgeSQL (rebuilt tagged_edge)
   \<and> attributes_json (rebuilt tagged_edge) = None
   \<and> fst (insert_edge empty_store (Plain tagged_edge)) = Inl IntegrityError
   \<and> table_edges (durable (snd (insert_edge empty_store (Plain tagged_edge)))) = []
   \<and> find_edge (snd (insert_edge empty_store (Plain tagged_edge))) 1 2 = Inl InvalidRequestError
   \<and> find_edge (rollback (snd (insert_edge empty_store (Plain tagged_edge)))) 1 2 = Inr None
   \<and> insert_edge empty_store (Entity EdgeSQL tagged_edge) = (Inr (), open_store [tagged_edge])
   \<and> find_edge (open_store [tagged_edge]) 1 2 = Inr (Some tagged_edge)"
  by (simp add: empty_store_def open_store_def edge_row_def tagged_edge_def insert_edge_def
        to_sql_def rebuilt_def merge_def commit_def merge_row_def rollback_def find_edge_def
        query_def)

section \<open>Batch insertion\<close>

text \<open>
  C3, at a batch whose flush is refused. On an empty store \<^verbatim>\<open>insert_edges\<close> of one plain
  edge, which reaches the store without key, returns 0 and does not roll back: the
  session is left waiting for the rollback, and \<^verbatim>\<open>count_edges()\<close>, 0 before the call,
  raises after it; only after a rollback is it 0 again. The same holds for an entity
  with a key when the store refuses a statement of the flush.
\<close>

theorem insert_edges_failed_commit:
  "count_edges empty_store = Inr 0
   \<and> fst (insert_edges empty_store [Plain (edge_row 7 1 2 1)]) = Inr 0
   \<and> count_edges (snd (insert_edges empty_store [Plain (edge_row 7 1 2 1)]))
       = Inl InvalidRequestError
   \<and> count_edges (rollback (snd (insert_edges empty_store [Plain (edge_row 7 1 2 1)]))) = Inr 0
   \<and> fst (insert_edges (empty_store\<lparr>commits := [FlushFails]\<rparr>) [Entity EdgeSQL (edge_row 7 1 2 1)])
       = Inr 0
   \<and> count_edges (snd (insert_edges (empty_store\<lparr>commits := [FlushFails]\<rparr>)
        [Entity EdgeSQL (edge_row 7 1 2 1)])) = Inl InvalidRequestError
   \<and> count_edges (rollback (snd (insert_edges (empty_store\<lparr>commits := [FlushFails]\<rparr>)
        [Entity EdgeSQL (edge_row 7 1 2 1)]))) = Inr 0"
  by (simp add: empty_store_def open_store_def edge_row_def insert_edges_def
        to_sql_def rebuilt_def merge_def commit_def merge_row_def rollback_def count_edges_def
        query_def)

section \<open>Bulk load\<close>

text \<open>
  C1. On a usable session with nothing pending, \<^verbatim>\<open>insert_dump\<close> returns 0 for every dump
  and every answer of the store, and it leaves the session rolled back and usable with
  both tables, committed and as the session sees them, as they were before the call;
  \<^verbatim>\<open>count_edges()\<close> is what it was. Some stage raises in every load, \<^verbatim>\<open>insert_table\<close> at
  the latest.
\<close>

theorem insert_dump_all_or_nothing:
  assumes "\<not> inactive s" and "view s = durable s"
  shows "fst (insert_dump s dump) = 0
       \<and> \<not> inactive (snd (insert_dump s dump))
       \<and> view (snd (insert_dump s dump)) = view s
       \<and> durable (snd (insert_dump s dump)) = durable s
       \<and> count_edges (snd (insert_dump s dump)) = count_edges s"
proof -
  obtain err s1 where t: "insert_dump_try s dump = (Inl err, s1)"
    using insert_dump_try_raises by blast
  from insert_dump_try_fixed [OF refl assms(2), of dump] t
  have d: "durable s1 = durable s" by simp
  from t have r: "insert_dump s dump = (0, rollback s1)" by (simp add: insert_dump_def)
  have after: "\<not> inactive (rollback s1)" "view (rollback s1) = view s"
    "durable (rollback s1) = durable s"
    using d assms(2) by (simp_all add: rollback_def inactive_def)
  then have "count_edges (rollback s1) = count_edges s"
    using assms(1) by (simp add: count_edges_def query_active)
  with r after show ?thesis by simp
qed

text \<open>The bulk-load theorem at the chain and a dump of two edges.\<close>

theorem insert_dump_all_or_nothing_witness:
  "\<not> inactive chain_store \<and> view chain_store = durable chain_store
   \<and> fst (insert_dump chain_store [edge_row 7 1 2 1, edge_row 8 4 5 1]) = 0
   \<and> count_edges chain_store = Inr 3
   \<and> count_edges (snd (insert_dump chain_store [edge_row 7 1 2 1, edge_row 8 4 5 1])) = Inr 3"
proof -
  have active: "\<not> inactive chain_store"
    by (simp add: chain_store_def open_store_active)
  have clean: "view chain_store = durable chain_store"
    by (simp add: chain_store_def open_store_def)
  have before: "count_edges chain_store = Inr 3"
    using active by (simp add: count_edges_def query_active chain_store_def open_store_rows)
  from insert_dump_all_or_nothing [OF active clean, of "[edge_row 7 1 2 1, edge_row 8 4 5 1]"]
    active clean before
  show ?thesis by simp
qed

text \<open>
  C2, what stands in its way. No call of \<^verbatim>\<open>insert_dump\<close> completes its \<^verbatim>\<open>try\<close> block,
  whatever the session and the dump are, so every call returns 0: \<^verbatim>\<open>insert_table\<close> raises
  NameError on every call. And each record of the dump is rebuilt as an \<^verbatim>\<open>EdgeSQL\<close>
  entity, the class of the primary table, not as an \<^verbatim>\<open>EdgeNew\<close> entity of the staging
  table.
\<close>

theorem insert_dump_never_completes:
  "(\<exists>err s1. insert_dump_try s dump = (Inl err, s1))
   \<and> fst (insert_dump s dump) = 0
   \<and> insert_table s source_name = (Inl NameError, s)
   \<and> to_sql (Plain e) EdgeSQL = Entity EdgeSQL (rebuilt e)"
proof -
  obtain err s1 where t: "insert_dump_try s dump = (Inl err, s1)"
    using insert_dump_try_raises by blast
  then have "fst (insert_dump s dump) = 0" by (simp add: insert_dump_def)
  with t show ?thesis by (simp add: insert_table_def to_sql_Plain)
qed

end
